theory Spec2Isabelle
  imports Main "HOL-Library.Word" "HOL-Library.Sublist"
begin

section \<open>Machine model\<close>

text \<open>
  The benchmark targets GCC and Clang on an LP64 platform: the catalog specialises
  \<open>Trivial<sizeof(std::size_t)>\<close> and asserts that \<open>Trivial<8>\<close> has size 8, so
  \<open>std::size_t\<close> is 8 bytes wide. Unsigned arithmetic on \<open>std::size_t\<close> wraps
  modulo \<open>2 ^ 64\<close>.
\<close>

type_synonym size_t = "64 word"

definition sizeof_size_t :: size_t where
  "sizeof_size_t = 8"

definition alignof_size_t :: size_t where
  "alignof_size_t = 8"

definition sizeof_uintptr_t :: size_t where
  "sizeof_uintptr_t = 8"

text \<open>Number of repetitions of each test (\<open>static const std::size_t REPEAT = 7\<close>).\<close>

definition REPEAT :: nat where
  "REPEAT = 7"

section \<open>The variadic policy runner\<close>

text \<open>
  An operation policy \<open>Test<Container>::run(container, size)\<close> mutates the container it
  is handed; here it is a function from the container and the size to the container
  afterwards. The template parameter pack \<open>Test, Rest...\<close> is the list of policies.
  The first overload of \<open>run\<close> (empty pack) has an empty body; the second calls the
  head policy and recurses on the rest.
\<close>

type_synonym 'c policy = "'c \<Rightarrow> size_t \<Rightarrow> 'c"

fun run :: "'c policy list \<Rightarrow> 'c \<Rightarrow> size_t \<Rightarrow> 'c" where
  "run [] container sz = container"
| "run (Test # Rest) container sz = run Rest (Test container sz) sz"

text \<open>
  To observe which calls a chain makes, a policy can be paired with a label and run on a
  container that carries a call log: \<open>logged\<close> performs the policy's effect and appends
  the pair (label, size received) to the log. The log is only ever written by policies.
\<close>

definition logged :: "string \<times> 'c policy \<Rightarrow> ('c \<times> (string \<times> size_t) list) policy" where
  "logged p = (\<lambda>(c, calls) sz. (snd p c sz, calls @ [(fst p, sz)]))"

section \<open>Graph keys\<close>

text \<open>
  \<open>tag\<close> passes each \<open>char\<close> of the name to \<open>is_tag(int)\<close>. On the targeted platforms
  \<open>char\<close> is signed, so a byte above 127 converts to a negative \<open>int\<close>.
  \<open>std::isalnum\<close> is the classification of the default "C" locale (the program never
  changes the locale): the decimal digits and the upper- and lower-case Latin letters.
\<close>

definition char_to_int :: "char \<Rightarrow> int" where
  "char_to_int c = (let k = (of_char c :: int) in if k < 128 then k else k - 256)"

definition isalnum :: "int \<Rightarrow> bool" where
  "isalnum c \<longleftrightarrow> (48 \<le> c \<and> c \<le> 57) \<or> (65 \<le> c \<and> c \<le> 90) \<or> (97 \<le> c \<and> c \<le> 122)"

definition is_tag :: "int \<Rightarrow> bool" where
  "is_tag c \<longleftrightarrow> isalnum c \<or> c = char_to_int (CHR ''_'')"

text \<open>\<open>std::replace_if(first, last, p, new_value)\<close>: one pass over the range, in place.\<close>

primrec replace_if :: "('a \<Rightarrow> bool) \<Rightarrow> 'a \<Rightarrow> 'a list \<Rightarrow> 'a list" where
  "replace_if p new_value [] = []"
| "replace_if p new_value (x # xs) =
     (if p x then new_value else x) # replace_if p new_value xs"

text \<open>\<open>a.swap(b)\<close> on two strings, as the pair of their contents afterwards.\<close>

definition swap_strings :: "string \<Rightarrow> string \<Rightarrow> string \<times> string" where
  "swap_strings a b = (b, a)"

definition tag :: "string \<Rightarrow> string" where
  "tag name =
     (let name1 = replace_if (\<lambda>c. \<not> is_tag (char_to_int c)) (CHR ''_'') name;
          res = [];
          (res1, name2) = swap_strings res name1
      in res1)"

section \<open>Value types and type classification predicates\<close>

text \<open>
  The tested types: the class templates \<open>Trivial<N>\<close> and \<open>NonTrivialArray<N>\<close> and the
  two string-holding classes.
\<close>

datatype value_type =
    Trivial nat
  | NonTrivialStringMovable
  | NonTrivialStringMovableNoExcept
  | NonTrivialArray nat

abbreviation TrivialSmall :: value_type where "TrivialSmall \<equiv> Trivial 8"
abbreviation TrivialMedium :: value_type where "TrivialMedium \<equiv> Trivial 32"
abbreviation TrivialLarge :: value_type where "TrivialLarge \<equiv> Trivial 128"
abbreviation TrivialHuge :: value_type where "TrivialHuge \<equiv> Trivial 1024"
abbreviation TrivialMonster :: value_type where "TrivialMonster \<equiv> Trivial (4 * 1024)"
abbreviation NonTrivialArrayMedium :: value_type where "NonTrivialArrayMedium \<equiv> NonTrivialArray 32"

text \<open>What the \<open><type_traits>\<close> queries and \<open>sizeof\<close> answer for a type.\<close>

record type_traits =
  is_trivial :: bool
  sizeof :: nat
  is_copy_constructible :: bool
  is_copy_assignable :: bool
  is_move_constructible :: bool
  is_move_assignable :: bool
  is_nothrow_move_constructible :: bool
  is_nothrow_move_assignable :: bool

text \<open>
  Size of a class holding a \<open>std::size_t\<close> followed by \<open>std::array<unsigned char, N - 8>\<close>:
  the members, padded to the alignment of \<open>std::size_t\<close> (an empty \<open>std::array\<close> still
  occupies one byte), for \<open>N\<close> of at least 8; the class templates are not instantiable
  below that. \<open>sizeof(std::string)\<close> is 32 with GCC's library.
\<close>

definition padded_size :: "nat \<Rightarrow> nat" where
  "padded_size n = 8 * ((8 + max 1 (n - 8) + 7) div 8)"

definition sizeof_std_string :: nat where
  "sizeof_std_string = 32"

text \<open>
  The traits of the tested types, read off the class definitions. \<open>Trivial<N>\<close> is an
  aggregate of trivial members (with the one-member specialisation at
  \<open>N = sizeof(std::size_t)\<close>). The other classes have default member initialisers, so
  they are not trivial; \<open>NonTrivialStringMovable\<close> and \<open>NonTrivialArray\<close> declare a
  destructor, so they get no implicit move operations and an rvalue is taken by their
  copy operations, which may throw only where a \<open>std::string\<close> is copied.
\<close>

fun traits :: "value_type \<Rightarrow> type_traits" where
  "traits (Trivial n) =
     \<lparr>is_trivial = True, sizeof = (if n = 8 then 8 else padded_size n),
      is_copy_constructible = True, is_copy_assignable = True,
      is_move_constructible = True, is_move_assignable = True,
      is_nothrow_move_constructible = True, is_nothrow_move_assignable = True\<rparr>"
| "traits NonTrivialStringMovable =
     \<lparr>is_trivial = False, sizeof = sizeof_std_string + 8,
      is_copy_constructible = True, is_copy_assignable = True,
      is_move_constructible = True, is_move_assignable = True,
      is_nothrow_move_constructible = False, is_nothrow_move_assignable = False\<rparr>"
| "traits NonTrivialStringMovableNoExcept =
     \<lparr>is_trivial = False, sizeof = sizeof_std_string + 8,
      is_copy_constructible = True, is_copy_assignable = True,
      is_move_constructible = True, is_move_assignable = True,
      is_nothrow_move_constructible = True, is_nothrow_move_assignable = True\<rparr>"
| "traits (NonTrivialArray n) =
     \<lparr>is_trivial = False, sizeof = padded_size n,
      is_copy_constructible = True, is_copy_assignable = True,
      is_move_constructible = True, is_move_assignable = True,
      is_nothrow_move_constructible = True, is_nothrow_move_assignable = True\<rparr>"

definition is_trivial_of_size :: "type_traits \<Rightarrow> nat \<Rightarrow> bool" where
  "is_trivial_of_size T sz \<longleftrightarrow> is_trivial T \<and> sizeof T = sz"

definition is_non_trivial_of_size :: "type_traits \<Rightarrow> nat \<Rightarrow> bool" where
  "is_non_trivial_of_size T sz \<longleftrightarrow>
       \<not> is_trivial T
     \<and> sizeof T = sz
     \<and> is_copy_constructible T
     \<and> is_copy_assignable T
     \<and> is_move_constructible T
     \<and> is_move_assignable T"

definition is_non_trivial_nothrow_movable :: "type_traits \<Rightarrow> bool" where
  "is_non_trivial_nothrow_movable T \<longleftrightarrow>
       \<not> is_trivial T
     \<and> is_nothrow_move_constructible T
     \<and> is_nothrow_move_assignable T"

definition is_non_trivial_non_nothrow_movable :: "type_traits \<Rightarrow> bool" where
  "is_non_trivial_non_nothrow_movable T \<longleftrightarrow>
       \<not> is_trivial T
     \<and> is_move_constructible T
     \<and> is_move_assignable T
     \<and> \<not> is_nothrow_move_constructible T
     \<and> \<not> is_nothrow_move_assignable T"

definition is_non_trivial_non_movable :: "type_traits \<Rightarrow> bool" where
  "is_non_trivial_non_movable T \<longleftrightarrow>
       \<not> is_trivial T
     \<and> is_copy_constructible T
     \<and> is_copy_assignable T
     \<and> \<not> is_move_constructible T
     \<and> \<not> is_move_assignable T"

definition is_small :: "type_traits \<Rightarrow> bool" where
  "is_small T \<longleftrightarrow> sizeof T \<le> unat sizeof_size_t"

section \<open>The benchmarking procedure\<close>

subsection \<open>Template arguments of the Bencher\<close>

datatype container_template = std_vector | std_list | std_deque

datatype allocator_wrapper = std_allocator_wrapper | linear_allocator_wrapper

datatype duration_unit = milliseconds | microseconds

datatype create_policy = Empty | FilledRandom | SmartFilled

datatype test_policy =
    FillBack | ReserveSize | FillBackInserter | EmplaceBack | FillFront | EmplaceFront
  | Find | Insert | Erase | Sort | SmartDelete | RandomSortedInsert

record SizesType =
  i0 :: size_t
  i1 :: size_t
  i2 :: size_t
  i3 :: size_t
  i4 :: size_t
  i5 :: size_t
  i6 :: size_t
  i7 :: size_t
  i8 :: size_t
  i9 :: size_t

record Bencher =
  Container :: container_template
  ValueType :: value_type
  AllocatorWrapper :: allocator_wrapper
  DurationUnit :: duration_unit
  CreatePolicy :: create_policy
  Sizes :: SizesType
  TestPolicy :: "test_policy list"

subsection \<open>Allocators, the included headers and the observable trace\<close>

text \<open>
  The allocator a wrapper object exposes: a \<open>std::allocator\<close>, or a \<open>short_alloc\<close> view of
  the arena that lives inside the wrapper object with the given identity, capacity and
  alignment.
\<close>

datatype allocator = std_allocator | short_alloc nat size_t size_t

text \<open>
  The policies (\<open>policies.hpp\<close>) and the type-name formatter (\<open>demangle.hpp\<close>) are
  included headers whose bodies are not part of the modelled sources; they are parameters
  of the model. \<open>policy_make\<close> is \<open>CreatePolicy<ContainerType>::make(N, allocator)\<close>, \<open>policy_run\<close> is
  \<open>Test<Container>::run\<close>, and \<open>demangle\<close> gives the printed name of a value type.
\<close>

record 'c headers =
  policy_make :: "create_policy \<Rightarrow> container_template \<Rightarrow> value_type \<Rightarrow> size_t \<Rightarrow> allocator \<Rightarrow> 'c"
  policy_run :: "test_policy \<Rightarrow> container_template \<Rightarrow> value_type \<Rightarrow> 'c policy"
  demangle :: "value_type \<Rightarrow> string"

text \<open>
  The statements of the benchmarking procedure with an effect outside the local
  container append an event to a trace, in execution order: construction and destruction
  of the per-repetition locals (by object identity), clock readings, the policy chain run
  on a container (with the container it leaves), the update of the accumulated duration,
  and the calls to the report sink and to the creation policy's \<open>clean\<close>.
\<close>

datatype 'c event =
    Wrapper_constructed nat allocator_wrapper size_t size_t
  | Container_made nat create_policy size_t allocator
  | Clock_read int
  | Chain_run nat 'c
  | Duration_added size_t
  | Container_destroyed nat
  | Wrapper_destroyed nat
  | New_result string string size_t
  | Clean_called create_policy
  | New_graph string string string
  | Output_called

text \<open>
  The world the program runs in: \<open>clock k\<close> is the value the \<open>k\<close>-th call of
  \<open>Clock::now()\<close> returns, in ticks of the clock (nanoseconds with GCC's and Clang's
  libraries); \<open>reads\<close> counts the calls made so far; \<open>objects\<close> counts the wrapper
  objects constructed so far and names the next one.
\<close>

record 'c world =
  clock :: "nat \<Rightarrow> int"
  reads :: nat
  objects :: nat
  trace :: "'c event list"

definition emit :: "'c event \<Rightarrow> 'c world \<Rightarrow> 'c world" where
  "emit e w = w\<lparr>trace := trace w @ [e]\<rparr>"

definition Clock_now :: "'c world \<Rightarrow> int \<times> 'c world" where
  "Clock_now w =
     (let t = clock w (reads w)
      in (t, emit (Clock_read t) (w\<lparr>reads := Suc (reads w)\<rparr>)))"

text \<open>
  \<open>std::chrono::duration_cast<DurationUnit>(d).count()\<close> for a difference \<open>d\<close> of two
  time points: integer division by the number of clock ticks in one unit, truncating
  towards zero.
\<close>

fun ticks_per :: "duration_unit \<Rightarrow> int" where
  "ticks_per microseconds = 1000"
| "ticks_per milliseconds = 1000000"

definition duration_cast :: "duration_unit \<Rightarrow> int \<Rightarrow> int" where
  "duration_cast U d =
     (if d < 0 then - ((- d) div ticks_per U) else d div ticks_per U)"

text \<open>\<open>std::to_string\<close> of an unsigned value: its decimal digits.\<close>

definition digit_char :: "nat \<Rightarrow> char" where
  "digit_char d = char_of (48 + d)"

fun decimal :: "nat \<Rightarrow> string" where
  "decimal n = (if n < 10 then [digit_char n] else decimal (n div 10) @ [digit_char (n mod 10)])"

declare decimal.simps [simp del]

definition to_string :: "size_t \<Rightarrow> string" where
  "to_string N = decimal (unat N)"

subsection \<open>Bencher::functor\<close>

text \<open>
  The three compile-time constants of \<open>functor<N>::operator()\<close>. \<open>NodeSize\<close> is a
  \<open>constexpr size_t\<close> object, and the next two lines apply \<open>sizeof\<close> and \<open>alignof\<close> to
  that object: they yield the size and alignment of the type \<open>size_t\<close>, whatever the value
  of \<open>NodeSize\<close>.
\<close>

definition NodeSize :: "value_type \<Rightarrow> size_t" where
  "NodeSize T = of_nat (sizeof (traits T)) + 2 * sizeof_uintptr_t"

definition sizeof_object :: "size_t \<Rightarrow> size_t" where
  "sizeof_object x = sizeof_size_t"

definition alignof_object :: "size_t \<Rightarrow> size_t" where
  "alignof_object x = alignof_size_t"

definition BufferSize :: "value_type \<Rightarrow> size_t \<Rightarrow> size_t" where
  "BufferSize T N = sizeof_object (NodeSize T) * (N + 1000)"

definition Align :: "value_type \<Rightarrow> size_t" where
  "Align T = alignof_object (NodeSize T)"

text \<open>
  The \<open>allocator\<close> member of a wrapper object of type \<open>AllocatorWrapper<T, N, Align>\<close>:
  a \<open>std_allocator_wrapper\<close> ignores the capacity and alignment arguments and holds a
  \<open>std::allocator\<close>; a \<open>linear_allocator_wrapper\<close> holds its own arena of that capacity
  and alignment and an allocator constructed from that arena.
\<close>

definition wrapper_allocator :: "allocator_wrapper \<Rightarrow> nat \<Rightarrow> size_t \<Rightarrow> size_t \<Rightarrow> allocator" where
  "wrapper_allocator A ident cap al =
     (case A of
        std_allocator_wrapper \<Rightarrow> std_allocator
      | linear_allocator_wrapper \<Rightarrow> short_alloc ident cap al)"

text \<open>
  \<open>auto wrapper = WrapperType()\<close>: a new wrapper object, instantiated with \<open>BufferSize\<close>
  and \<open>Align\<close>. The result is the object's identity and its \<open>allocator\<close> member.
\<close>

definition WrapperType :: "Bencher \<Rightarrow> size_t \<Rightarrow> 'c world \<Rightarrow> (nat \<times> allocator) \<times> 'c world" where
  "WrapperType B N w =
     (let ident = objects w;
          cap = BufferSize (ValueType B) N;
          al = Align (ValueType B)
      in ((ident, wrapper_allocator (AllocatorWrapper B) ident cap al),
          emit (Wrapper_constructed ident (AllocatorWrapper B) cap al)
            (w\<lparr>objects := Suc (objects w)\<rparr>)))"

text \<open>
  The body of the \<open>for\<close> loop: one repetition. The locals \<open>wrapper\<close> and \<open>container\<close> are
  destroyed at the closing brace, in reverse order of construction, after the last
  statement of the block.
\<close>

definition repetition ::
  "'c headers \<Rightarrow> Bencher \<Rightarrow> size_t \<Rightarrow> size_t \<Rightarrow> 'c world \<Rightarrow> size_t \<times> 'c world" where
  "repetition H B N duration w =
     (let ((ident, alloc), w1) = WrapperType B N w;
          container = policy_make H (CreatePolicy B) (Container B) (ValueType B) N alloc;
          w2 = emit (Container_made ident (CreatePolicy B) N alloc) w1;
          (t0, w3) = Clock_now w2;
          container1 =
            run (map (\<lambda>p. policy_run H p (Container B) (ValueType B)) (TestPolicy B)) container N;
          w4 = emit (Chain_run ident container1) w3;
          (t1, w5) = Clock_now w4;
          elapsed = (word_of_int (duration_cast (DurationUnit B) (t1 - t0)) :: size_t);
          duration1 = duration + elapsed;
          w6 = emit (Duration_added elapsed) w5;
          w7 = emit (Container_destroyed ident) w6;
          w8 = emit (Wrapper_destroyed ident) w7
      in (duration1, w8))"

function repeat_loop ::
  "'c headers \<Rightarrow> Bencher \<Rightarrow> size_t \<Rightarrow> nat \<Rightarrow> size_t \<Rightarrow> 'c world \<Rightarrow> size_t \<times> 'c world" where
  "repeat_loop H B N i duration w =
     (if i < REPEAT
      then (let (duration1, w1) = repetition H B N duration w
            in repeat_loop H B N (Suc i) duration1 w1)
      else (duration, w))"
  by pat_completeness auto
termination
  by (relation "measure (\<lambda>(H, B, N, i, duration, w). REPEAT - i)") auto

declare repeat_loop.simps [simp del]

text \<open>\<open>functor<N>::operator()(type)\<close>.\<close>

definition functor_call :: "'c headers \<Rightarrow> Bencher \<Rightarrow> size_t \<Rightarrow> string \<Rightarrow> 'c world \<Rightarrow> 'c world" where
  "functor_call H B N type w =
     (let (duration, w1) = repeat_loop H B N 0 0 w;
          w2 = emit (New_result type (to_string N) (duration div of_nat REPEAT)) w1
      in emit (Clean_called (CreatePolicy B)) w2)"

definition bench :: "'c headers \<Rightarrow> Bencher \<Rightarrow> string \<Rightarrow> 'c world \<Rightarrow> 'c world" where
  "bench H B type w =
     (let w0 = functor_call H B (i0 (Sizes B)) type w;
          w1 = functor_call H B (i1 (Sizes B)) type w0;
          w2 = functor_call H B (i2 (Sizes B)) type w1;
          w3 = functor_call H B (i3 (Sizes B)) type w2;
          w4 = functor_call H B (i4 (Sizes B)) type w3;
          w5 = functor_call H B (i5 (Sizes B)) type w4;
          w6 = functor_call H B (i6 (Sizes B)) type w5;
          w7 = functor_call H B (i7 (Sizes B)) type w6;
          w8 = functor_call H B (i8 (Sizes B)) type w7
      in functor_call H B (i9 (Sizes B)) type w8)"

definition new_graph :: "'c headers \<Rightarrow> value_type \<Rightarrow> string \<Rightarrow> string \<Rightarrow> 'c world \<Rightarrow> 'c world" where
  "new_graph H T testName unit w =
     (let title = testName @ '' - '' @ demangle H T
      in emit (New_graph (tag title) title unit) w)"

section \<open>The benchmark families and the driver\<close>

text \<open>
  Each \<open>bench_...<T>::run()\<close> registers one graph, fixes its \<open>Sizes\<close> and calls
  \<open>Bencher<...>::bench(label)\<close> for a fixed sequence of template instantiations. A family
  is given here by these three data, in source order.
\<close>

datatype benchmark =
    bench_fill_back | bench_emplace_back | bench_fill_front | bench_emplace_front
  | bench_linear_search | bench_random_insert | bench_random_remove | bench_sort
  | bench_destruction | bench_number_crunching

text \<open>The arguments of the family's \<open>new_graph<T>(testName, unit)\<close> call.\<close>

fun graph_of :: "benchmark \<Rightarrow> string \<times> string" where
  "graph_of bench_fill_back = (''fill_back'', ''us'')"
| "graph_of bench_emplace_back = (''emplace_back'', ''us'')"
| "graph_of bench_fill_front = (''fill_front'', ''us'')"
| "graph_of bench_emplace_front = (''emplace_front'', ''us'')"
| "graph_of bench_linear_search = (''linear_search'', ''us'')"
| "graph_of bench_random_insert = (''random_insert'', ''ms'')"
| "graph_of bench_random_remove = (''random_remove'', ''ms'')"
| "graph_of bench_sort = (''sort'', ''ms'')"
| "graph_of bench_destruction = (''destruction'', ''us'')"
| "graph_of bench_number_crunching = (''number_crunching'', ''ms'')"

text \<open>Aggregate initialisation \<open>SizesType Sizes { ... }\<close>.\<close>

definition SizesType_init ::
  "size_t \<Rightarrow> size_t \<Rightarrow> size_t \<Rightarrow> size_t \<Rightarrow> size_t \<Rightarrow> size_t \<Rightarrow> size_t \<Rightarrow> size_t \<Rightarrow> size_t \<Rightarrow> size_t
   \<Rightarrow> SizesType" where
  "SizesType_init a0 a1 a2 a3 a4 a5 a6 a7 a8 a9 =
     \<lparr>i0 = a0, i1 = a1, i2 = a2, i3 = a3, i4 = a4, i5 = a5, i6 = a6, i7 = a7, i8 = a8, i9 = a9\<rparr>"

text \<open>The family's \<open>constexpr SizesType Sizes\<close>.\<close>

fun Sizes_of :: "benchmark \<Rightarrow> SizesType" where
  "Sizes_of bench_fill_back =
     SizesType_init 100000 200000 300000 400000 500000 600000 700000 800000 900000 1000000"
| "Sizes_of bench_emplace_back =
     SizesType_init 100000 200000 300000 400000 500000 600000 700000 800000 900000 1000000"
| "Sizes_of bench_fill_front =
     SizesType_init 10000 20000 30000 40000 50000 60000 70000 80000 90000 100000"
| "Sizes_of bench_emplace_front =
     SizesType_init 10000 20000 30000 40000 50000 60000 70000 80000 90000 100000"
| "Sizes_of bench_linear_search =
     SizesType_init 1000 2000 3000 4000 5000 6000 7000 8000 9000 10000"
| "Sizes_of bench_random_insert =
     SizesType_init 10000 20000 30000 40000 50000 60000 70000 80000 90000 100000"
| "Sizes_of bench_random_remove =
     SizesType_init 10000 20000 30000 40000 50000 60000 70000 80000 90000 100000"
| "Sizes_of bench_sort =
     SizesType_init 100000 200000 300000 400000 500000 600000 700000 800000 900000 1000000"
| "Sizes_of bench_destruction =
     SizesType_init 100000 200000 300000 400000 500000 600000 700000 800000 900000 1000000"
| "Sizes_of bench_number_crunching =
     SizesType_init 10000 20000 30000 40000 50000 60000 70000 80000 90000 100000"

text \<open>
  \<open>Bencher<Container, T, AllocatorWrapper, DurationUnit, CreatePolicy, Sizes, TestPolicy...>\<close>.
\<close>

definition Bencher_of ::
  "container_template \<Rightarrow> value_type \<Rightarrow> allocator_wrapper \<Rightarrow> duration_unit \<Rightarrow> create_policy
   \<Rightarrow> SizesType \<Rightarrow> test_policy list \<Rightarrow> Bencher" where
  "Bencher_of C T A U CP S TPs =
     \<lparr>Container = C, ValueType = T, AllocatorWrapper = A, DurationUnit = U,
      CreatePolicy = CP, Sizes = S, TestPolicy = TPs\<rparr>"

text \<open>
  The family's \<open>Bencher<...>::bench(label)\<close> calls for the value type \<open>T\<close>, in order. The
  front-insertion families call the \<open>std::vector\<close> one only under \<open>is_small<T>()\<close>.
\<close>

fun benchers :: "benchmark \<Rightarrow> value_type \<Rightarrow> (Bencher \<times> string) list" where
  "benchers bench_fill_back T =
     [(Bencher_of std_vector T std_allocator_wrapper    microseconds Empty (Sizes_of bench_fill_back) [FillBack], ''vector''),
      (Bencher_of std_list   T std_allocator_wrapper    microseconds Empty (Sizes_of bench_fill_back) [FillBack], ''list''),
      (Bencher_of std_deque  T std_allocator_wrapper    microseconds Empty (Sizes_of bench_fill_back) [FillBack], ''deque''),
      (Bencher_of std_vector T std_allocator_wrapper    microseconds Empty (Sizes_of bench_fill_back) [ReserveSize, FillBack], ''vector_reserve''),
      (Bencher_of std_list   T linear_allocator_wrapper microseconds Empty (Sizes_of bench_fill_back) [FillBack], ''list_linear''),
      (Bencher_of std_vector T std_allocator_wrapper    microseconds Empty (Sizes_of bench_fill_back) [FillBackInserter], ''vector_inserter''),
      (Bencher_of std_list   T std_allocator_wrapper    microseconds Empty (Sizes_of bench_fill_back) [FillBackInserter], ''list_inserter''),
      (Bencher_of std_deque  T std_allocator_wrapper    microseconds Empty (Sizes_of bench_fill_back) [FillBackInserter], ''deque_inserter''),
      (Bencher_of std_list   T linear_allocator_wrapper microseconds Empty (Sizes_of bench_fill_back) [FillBackInserter], ''list_inserter_linear'')]"
| "benchers bench_emplace_back T =
     [(Bencher_of std_vector T std_allocator_wrapper    microseconds Empty (Sizes_of bench_emplace_back) [EmplaceBack], ''vector''),
      (Bencher_of std_list   T std_allocator_wrapper    microseconds Empty (Sizes_of bench_emplace_back) [EmplaceBack], ''list''),
      (Bencher_of std_deque  T std_allocator_wrapper    microseconds Empty (Sizes_of bench_emplace_back) [EmplaceBack], ''deque''),
      (Bencher_of std_list   T linear_allocator_wrapper microseconds Empty (Sizes_of bench_emplace_back) [EmplaceBack], ''list_linear'')]"
| "benchers bench_fill_front T =
     (if is_small (traits T)
      then [(Bencher_of std_vector T std_allocator_wrapper    microseconds Empty (Sizes_of bench_fill_front) [FillFront], ''vector'')]
      else []) @
     [(Bencher_of std_list   T std_allocator_wrapper    microseconds Empty (Sizes_of bench_fill_front) [FillFront], ''list''),
      (Bencher_of std_deque  T std_allocator_wrapper    microseconds Empty (Sizes_of bench_fill_front) [FillFront], ''deque''),
      (Bencher_of std_list   T linear_allocator_wrapper microseconds Empty (Sizes_of bench_fill_front) [FillFront], ''list_linear'')]"
| "benchers bench_emplace_front T =
     (if is_small (traits T)
      then [(Bencher_of std_vector T std_allocator_wrapper    microseconds Empty (Sizes_of bench_emplace_front) [EmplaceFront], ''vector'')]
      else []) @
     [(Bencher_of std_list   T std_allocator_wrapper    microseconds Empty (Sizes_of bench_emplace_front) [EmplaceFront], ''list''),
      (Bencher_of std_deque  T std_allocator_wrapper    microseconds Empty (Sizes_of bench_emplace_front) [EmplaceFront], ''deque''),
      (Bencher_of std_list   T linear_allocator_wrapper microseconds Empty (Sizes_of bench_emplace_front) [EmplaceFront], ''list_linear'')]"
| "benchers bench_linear_search T =
     [(Bencher_of std_vector T std_allocator_wrapper    microseconds FilledRandom (Sizes_of bench_linear_search) [Find], ''vector''),
      (Bencher_of std_list   T std_allocator_wrapper    microseconds FilledRandom (Sizes_of bench_linear_search) [Find], ''list''),
      (Bencher_of std_deque  T std_allocator_wrapper    microseconds FilledRandom (Sizes_of bench_linear_search) [Find], ''deque''),
      (Bencher_of std_list   T linear_allocator_wrapper microseconds FilledRandom (Sizes_of bench_linear_search) [Find], ''list_linear'')]"
| "benchers bench_random_insert T =
     [(Bencher_of std_vector T std_allocator_wrapper    microseconds FilledRandom (Sizes_of bench_random_insert) [Insert], ''vector''),
      (Bencher_of std_list   T std_allocator_wrapper    microseconds FilledRandom (Sizes_of bench_random_insert) [Insert], ''list''),
      (Bencher_of std_deque  T std_allocator_wrapper    microseconds FilledRandom (Sizes_of bench_random_insert) [Insert], ''deque''),
      (Bencher_of std_list   T linear_allocator_wrapper microseconds FilledRandom (Sizes_of bench_random_insert) [Insert], ''list_linear'')]"
| "benchers bench_random_remove T =
     [(Bencher_of std_vector T std_allocator_wrapper    microseconds FilledRandom (Sizes_of bench_random_remove) [Erase], ''vector''),
      (Bencher_of std_list   T std_allocator_wrapper    microseconds FilledRandom (Sizes_of bench_random_remove) [Erase], ''list''),
      (Bencher_of std_deque  T std_allocator_wrapper    microseconds FilledRandom (Sizes_of bench_random_remove) [Erase], ''deque''),
      (Bencher_of std_list   T linear_allocator_wrapper microseconds FilledRandom (Sizes_of bench_random_remove) [Erase], ''list_linear'')]"
| "benchers bench_sort T =
     [(Bencher_of std_vector T std_allocator_wrapper    microseconds FilledRandom (Sizes_of bench_sort) [Sort], ''vector''),
      (Bencher_of std_list   T std_allocator_wrapper    microseconds FilledRandom (Sizes_of bench_sort) [Sort], ''list''),
      (Bencher_of std_deque  T std_allocator_wrapper    microseconds FilledRandom (Sizes_of bench_sort) [Sort], ''deque''),
      (Bencher_of std_list   T linear_allocator_wrapper microseconds FilledRandom (Sizes_of bench_sort) [Sort], ''list_linear'')]"
| "benchers bench_destruction T =
     [(Bencher_of std_vector T std_allocator_wrapper    microseconds SmartFilled (Sizes_of bench_destruction) [SmartDelete], ''vector''),
      (Bencher_of std_list   T std_allocator_wrapper    microseconds SmartFilled (Sizes_of bench_destruction) [SmartDelete], ''list''),
      (Bencher_of std_deque  T std_allocator_wrapper    microseconds SmartFilled (Sizes_of bench_destruction) [SmartDelete], ''deque''),
      (Bencher_of std_list   T linear_allocator_wrapper microseconds SmartFilled (Sizes_of bench_destruction) [SmartDelete], ''list_linear'')]"
| "benchers bench_number_crunching T =
     [(Bencher_of std_vector T std_allocator_wrapper    microseconds Empty (Sizes_of bench_number_crunching) [RandomSortedInsert], ''vector''),
      (Bencher_of std_list   T std_allocator_wrapper    microseconds Empty (Sizes_of bench_number_crunching) [RandomSortedInsert], ''list''),
      (Bencher_of std_deque  T std_allocator_wrapper    microseconds Empty (Sizes_of bench_number_crunching) [RandomSortedInsert], ''deque''),
      (Bencher_of std_list   T linear_allocator_wrapper microseconds Empty (Sizes_of bench_number_crunching) [RandomSortedInsert], ''list_linear'')]"

text \<open>\<open>Benchmark<T>::run()\<close>.\<close>

definition benchmark_run :: "'c headers \<Rightarrow> benchmark \<Rightarrow> value_type \<Rightarrow> 'c world \<Rightarrow> 'c world" where
  "benchmark_run H Benchmark T w =
     (let w1 = new_graph H T (fst (graph_of Benchmark)) (snd (graph_of Benchmark)) w
      in foldl (\<lambda>w (B, type). bench H B type w) w1 (benchers Benchmark T))"

fun bench_types :: "'c headers \<Rightarrow> benchmark \<Rightarrow> value_type list \<Rightarrow> 'c world \<Rightarrow> 'c world" where
  "bench_types H Benchmark [] w = w"
| "bench_types H Benchmark (T # Types) w =
     bench_types H Benchmark Types (benchmark_run H Benchmark T w)"

definition bench_all :: "'c headers \<Rightarrow> value_type list \<Rightarrow> 'c world \<Rightarrow> 'c world" where
  "bench_all H Types w =
     (let w1 = bench_types H bench_fill_back Types w;
          w2 = bench_types H bench_emplace_back Types w1;
          w3 = bench_types H bench_fill_front Types w2;
          w4 = bench_types H bench_emplace_front Types w3;
          w5 = bench_types H bench_linear_search Types w4;
          w6 = bench_types H bench_random_insert Types w5;
          w7 = bench_types H bench_random_remove Types w6;
          w8 = bench_types H bench_sort Types w7;
          w9 = bench_types H bench_destruction Types w8
      in bench_types H bench_number_crunching [TrivialSmall, TrivialMedium] w9)"

text \<open>The value types \<open>main\<close> launches all the graphs for.\<close>

definition cataloged_types :: "value_type list" where
  "cataloged_types =
     [TrivialSmall, TrivialMedium, TrivialLarge, TrivialHuge, TrivialMonster,
      NonTrivialStringMovable, NonTrivialStringMovableNoExcept, NonTrivialArray 32]"

definition main :: "'c headers \<Rightarrow> 'c world \<Rightarrow> 'c world" where
  "main H w = emit Output_called (bench_all H cataloged_types w)"

section \<open>Observations on traces\<close>

text \<open>Projections of a trace, used to state what a run submitted or did.\<close>

definition results :: "'c event list \<Rightarrow> (string \<times> string \<times> size_t) list" where
  "results tr = concat (map (\<lambda>e. case e of New_result s x y \<Rightarrow> [(s, x, y)] | _ \<Rightarrow> []) tr)"

definition graph_titles :: "'c event list \<Rightarrow> string list" where
  "graph_titles tr = concat (map (\<lambda>e. case e of New_graph k t u \<Rightarrow> [t] | _ \<Rightarrow> []) tr)"

definition durations_added :: "'c event list \<Rightarrow> size_t list" where
  "durations_added tr = concat (map (\<lambda>e. case e of Duration_added d \<Rightarrow> [d] | _ \<Rightarrow> []) tr)"

definition cleans :: "'c event list \<Rightarrow> create_policy list" where
  "cleans tr = concat (map (\<lambda>e. case e of Clean_called cp \<Rightarrow> [cp] | _ \<Rightarrow> []) tr)"

definition wrappers_constructed :: "'c event list \<Rightarrow> nat list" where
  "wrappers_constructed tr =
     concat (map (\<lambda>e. case e of Wrapper_constructed k a c al \<Rightarrow> [k] | _ \<Rightarrow> []) tr)"

text \<open>
  The calls to \<open>graphs::new_graph\<close> and \<open>graphs::new_result\<close> in a trace, in order: a
  graph by its title, a data point by its series label and its x label.
\<close>

datatype sink_call = Graph string | Point string string

definition sink_calls :: "'c event list \<Rightarrow> sink_call list" where
  "sink_calls tr =
     concat (map (\<lambda>e. case e of New_graph k t u \<Rightarrow> [Graph t]
                            | New_result s x y \<Rightarrow> [Point s x]
                            | _ \<Rightarrow> []) tr)"

definition sizes_list :: "SizesType \<Rightarrow> size_t list" where
  "sizes_list S = [i0 S, i1 S, i2 S, i3 S, i4 S, i5 S, i6 S, i7 S, i8 S, i9 S]"

text \<open>
  The duration, in the Bencher's unit, between the two clock readings of the \<open>k\<close>-th
  repetition started from the world \<open>w\<close>, and the events that repetition appends.
\<close>

definition elapsed_at :: "Bencher \<Rightarrow> 'c world \<Rightarrow> nat \<Rightarrow> int" where
  "elapsed_at B w k =
     duration_cast (DurationUnit B) (clock w (reads w + 2 * k + 1) - clock w (reads w + 2 * k))"

definition block_events :: "'c headers \<Rightarrow> Bencher \<Rightarrow> size_t \<Rightarrow> 'c world \<Rightarrow> nat \<Rightarrow> 'c event list" where
  "block_events H B N w k =
     [Wrapper_constructed (objects w + k) (AllocatorWrapper B)
        (BufferSize (ValueType B) N) (Align (ValueType B)),
      Container_made (objects w + k) (CreatePolicy B) N
        (wrapper_allocator (AllocatorWrapper B) (objects w + k)
           (BufferSize (ValueType B) N) (Align (ValueType B))),
      Clock_read (clock w (reads w + 2 * k)),
      Chain_run (objects w + k)
        (run (map (\<lambda>p. policy_run H p (Container B) (ValueType B)) (TestPolicy B))
           (policy_make H (CreatePolicy B) (Container B) (ValueType B) N
              (wrapper_allocator (AllocatorWrapper B) (objects w + k)
                 (BufferSize (ValueType B) N) (Align (ValueType B)))) N),
      Clock_read (clock w (reads w + 2 * k + 1)),
      Duration_added (word_of_int (elapsed_at B w k)),
      Container_destroyed (objects w + k),
      Wrapper_destroyed (objects w + k)]"

text \<open>
  A small instance of the headers for evaluating the model on concrete inputs: a container
  is represented by its number of elements.
\<close>

definition example_headers :: "nat headers" where
  "example_headers =
     \<lparr>policy_make = (\<lambda>cp ct vt N a. case cp of Empty \<Rightarrow> 0 | _ \<Rightarrow> unat N),
      policy_run = (\<lambda>tp ct vt c N. case tp of
                      Find \<Rightarrow> c | Sort \<Rightarrow> c | ReserveSize \<Rightarrow> c
                    | Erase \<Rightarrow> c - 1000 | SmartDelete \<Rightarrow> 0
                    | Insert \<Rightarrow> c + 1000
                    | _ \<Rightarrow> c + unat N),
      demangle = (\<lambda>T. case T of
                      Trivial n \<Rightarrow> ''Trivial<'' @ decimal n @ ''>''
                    | NonTrivialStringMovable \<Rightarrow> ''NonTrivialStringMovable''
                    | NonTrivialStringMovableNoExcept \<Rightarrow> ''NonTrivialStringMovableNoExcept''
                    | NonTrivialArray n \<Rightarrow> ''NonTrivialArray<'' @ decimal n @ ''>'')\<rparr>"

definition example_world :: "(nat \<Rightarrow> int) \<Rightarrow> nat world" where
  "example_world c = \<lparr>clock = c, reads = 0, objects = 0, trace = []\<rparr>"

text \<open>The fifth bench call of \<open>bench_fill_back<TrivialMedium>\<close> (label \<open>list_linear\<close>).\<close>

definition example_bencher :: Bencher where
  "example_bencher =
     Bencher_of std_list TrivialMedium linear_allocator_wrapper microseconds Empty
       (Sizes_of bench_fill_back) [FillBack]"

section \<open>Properties of the policy runner\<close>

lemma run_append: "run (ps @ qs) c n = run qs (run ps c n) n"
  by (induction ps arbitrary: c) simp_all

lemma run_foldl: "run ps c n = foldl (\<lambda>c p. p c n) c ps"
  by (induction ps arbitrary: c) simp_all

lemma run_logged:
  "run (map logged ps) (c, calls) n =
     (run (map snd ps) c n, calls @ map (\<lambda>p. (fst p, n)) ps)"
  by (induction ps arbitrary: c calls) (simp_all add: logged_def)

text \<open>
  Claim C5. The policy chain runner applied to the policies \<open>P1, ..., Pk\<close>, a container
  \<open>c\<close> and a size \<open>n\<close> calls \<open>P1\<close>, then \<open>P2\<close>, ..., then \<open>Pk\<close>, each on the container
  the previous one left and each with the same \<open>n\<close>; it does nothing else. The result is
  the left fold of the policies over the container, and on a container with a call log the
  log gains exactly one entry per policy, in list order, each recording the size \<open>n\<close>.
\<close>

theorem run_in_list_order:
  "run ps c n = foldl (\<lambda>c p. p c n) c ps \<and>
   run (map logged lps) (c, []) n =
     (foldl (\<lambda>c p. snd p c n) c lps, map (\<lambda>p. (fst p, n)) lps)"
proof -
  have "run (map snd lps) c n = foldl (\<lambda>c p. snd p c n) c lps"
    by (simp add: run_foldl foldl_map)
  then show ?thesis
    by (simp add: run_foldl [of ps] run_logged)
qed

text \<open>
  Claim C10. With an empty policy list (the base-case overload) the runner performs no
  operation: the container is returned as it was, and a call log it carries stays as it was.
\<close>

theorem run_empty_chain:
  "run [] c n = c \<and> run (map logged []) (c, calls) n = (c, calls)"
  by simp

section \<open>Properties of tag\<close>

lemma length_replace_if: "length (replace_if p v xs) = length xs"
  by (induction xs) simp_all

lemma nth_replace_if:
  "i < length xs \<Longrightarrow> replace_if p v xs ! i = (if p (xs ! i) then v else xs ! i)"
proof (induction xs arbitrary: i)
  case Nil
  then show ?case by simp
next
  case (Cons x xs)
  then show ?case by (cases i) simp_all
qed

lemma replace_if_fixed:
  "\<not> p v \<Longrightarrow> replace_if p v (replace_if p v xs) = replace_if p v xs"
  by (induction xs) simp_all

lemma tag_eq: "tag name = replace_if (\<lambda>c. \<not> is_tag (char_to_int c)) (CHR ''_'') name"
  by (simp add: tag_def swap_strings_def)

lemma is_tag_underscore: "is_tag (char_to_int (CHR ''_''))"
  by (simp add: is_tag_def)

lemma char_to_int_inject: "char_to_int a = char_to_int b \<longleftrightarrow> a = b"
proof
  assume eq: "char_to_int a = char_to_int b"
  have bound: "(of_char c :: int) < 256 \<and> 0 \<le> (of_char c :: int)" for c
  proof -
    have "(of_char c :: int) = int (of_char c)"
      by (simp only: of_nat_of_char)
    then show ?thesis
      using nat_of_char_less_256 [of c] by simp
  qed
  have ra: "(of_char a :: int) < 256" "0 \<le> (of_char a :: int)"
   and rb: "(of_char b :: int) < 256" "0 \<le> (of_char b :: int)"
    using bound [of a] bound [of b] by simp_all
  from eq ra rb have "(of_char a :: int) = of_char b"
    by (simp add: char_to_int_def Let_def split: if_splits)
  then show "a = b" by simp
qed simp

text \<open>
  Claim C9. \<open>tag s\<close> has the length of \<open>s\<close>; at every position, a character that is
  neither alphanumeric nor the underscore is replaced by the underscore and any other
  character is kept; and \<open>tag\<close> is idempotent.
\<close>

theorem tag_replaces_non_tag_chars:
  "length (tag s) = length s \<and>
   (\<forall>i < length s.
      tag s ! i =
        (if isalnum (char_to_int (s ! i)) \<or> s ! i = CHR ''_'' then s ! i else CHR ''_'')) \<and>
   tag (tag s) = tag s"
proof (intro conjI allI impI)
  show "length (tag s) = length s"
    by (simp add: tag_eq length_replace_if)
next
  fix i assume "i < length s"
  then show "tag s ! i =
      (if isalnum (char_to_int (s ! i)) \<or> s ! i = CHR ''_'' then s ! i else CHR ''_'')"
    by (simp add: tag_eq nth_replace_if is_tag_def char_to_int_inject)
next
  show "tag (tag s) = tag s"
    unfolding tag_eq by (rule replace_if_fixed) (simp add: is_tag_underscore)
qed

theorem tag_replaces_non_tag_chars_witness:
  "length (tag ''sort - Trivial<8>'') = 17 \<and>
   tag ''sort - Trivial<8>'' = ''sort___Trivial_8_'' \<and>
   tag ''sort - Trivial<8>'' ! 4 = CHR ''_'' \<and>
   tag ''sort - Trivial<8>'' ! 0 = CHR ''s'' \<and>
   tag (tag ''sort - Trivial<8>'') = tag ''sort - Trivial<8>''"
proof -
  have v: "tag ''sort - Trivial<8>'' = ''sort___Trivial_8_''"
    by (simp add: tag_eq is_tag_def isalnum_def char_to_int_def)
  have "(4::nat) < length ''sort - Trivial<8>''" "(0::nat) < length ''sort - Trivial<8>''"
    by simp_all
  with tag_replaces_non_tag_chars [of "''sort - Trivial<8>''"] v show ?thesis
    by simp
qed

section \<open>The trace of the benchmarking procedure\<close>

lemma repetition_eq:
  "repetition H B N d w =
     (d + word_of_int (elapsed_at B w 0),
      w\<lparr>reads := reads w + 2, objects := Suc (objects w),
        trace := trace w @ block_events H B N w 0\<rparr>)"
  by (simp add: repetition_def WrapperType_def Clock_now_def emit_def Let_def
      block_events_def elapsed_at_def wrapper_allocator_def)

lemma repeat_loop_eq:
  "n = REPEAT - i \<Longrightarrow>
   repeat_loop H B N i d w =
     (d + sum_list (map (\<lambda>k. word_of_int (elapsed_at B w k)) [0..<n]),
      w\<lparr>reads := reads w + 2 * n, objects := objects w + n,
        trace := trace w @ concat (map (block_events H B N w) [0..<n])\<rparr>)"
proof (induction n arbitrary: i d w)
  case 0
  then have "\<not> i < REPEAT" by simp
  then show ?case
    by (simp add: repeat_loop.simps [of H B N i d w])
next
  case (Suc n)
  then have lt: "i < REPEAT" and n: "n = REPEAT - Suc i" by simp_all
  let ?w1 = "w\<lparr>reads := reads w + 2, objects := Suc (objects w),
        trace := trace w @ block_events H B N w 0\<rparr>"
  have shift_e: "elapsed_at B ?w1 k = elapsed_at B w (Suc k)" for k
    by (simp add: elapsed_at_def)
  have shift_b: "block_events H B N ?w1 k = block_events H B N w (Suc k)" for k
    by (simp add: block_events_def elapsed_at_def)
  have upt: "[0..<Suc n] = 0 # map Suc [0..<n]"
    by (simp add: upt_conv_Cons map_Suc_upt del: upt_Suc)
  have "repeat_loop H B N i d w =
        repeat_loop H B N (Suc i) (d + word_of_int (elapsed_at B w 0)) ?w1"
    using lt by (simp add: repeat_loop.simps [of H B N i d w] repetition_eq)
  also have "\<dots> = (d + word_of_int (elapsed_at B w 0)
                     + sum_list (map (\<lambda>k. word_of_int (elapsed_at B ?w1 k)) [0..<n]),
      ?w1\<lparr>reads := reads ?w1 + 2 * n, objects := objects ?w1 + n,
        trace := trace ?w1 @ concat (map (block_events H B N ?w1) [0..<n])\<rparr>)"
    by (rule Suc.IH [OF n])
  also have "\<dots> = (d + sum_list (map (\<lambda>k. word_of_int (elapsed_at B w k)) [0..<Suc n]),
      w\<lparr>reads := reads w + 2 * Suc n, objects := objects w + Suc n,
        trace := trace w @ concat (map (block_events H B N w) [0..<Suc n])\<rparr>)"
    unfolding upt shift_e shift_b
    by (simp add: comp_def add.assoc)
  finally show ?case .
qed

lemma functor_call_eq:
  "functor_call H B N ty w =
     w\<lparr>reads := reads w + 2 * REPEAT, objects := objects w + REPEAT,
       trace := trace w @ concat (map (block_events H B N w) [0..<REPEAT]) @
         [New_result ty (to_string N)
            (sum_list (map (\<lambda>k. word_of_int (elapsed_at B w k)) [0..<REPEAT]) div of_nat REPEAT),
          Clean_called (CreatePolicy B)]\<rparr>"
  by (simp add: functor_call_def repeat_loop_eq [OF refl, of _ _ _ 0] emit_def)


lemma results_append [simp]: "results (a @ b) = results a @ results b"
  by (simp add: results_def)

lemma graph_titles_append [simp]: "graph_titles (a @ b) = graph_titles a @ graph_titles b"
  by (simp add: graph_titles_def)

lemma durations_added_append [simp]:
  "durations_added (a @ b) = durations_added a @ durations_added b"
  by (simp add: durations_added_def)

lemma cleans_append [simp]: "cleans (a @ b) = cleans a @ cleans b"
  by (simp add: cleans_def)

lemma wrappers_constructed_append [simp]:
  "wrappers_constructed (a @ b) = wrappers_constructed a @ wrappers_constructed b"
  by (simp add: wrappers_constructed_def)

lemma results_blocks [simp]: "results (concat (map (block_events H B N w) ks)) = []"
  by (induction ks) (simp_all add: results_def block_events_def)

lemma graph_titles_blocks [simp]: "graph_titles (concat (map (block_events H B N w) ks)) = []"
  by (induction ks) (simp_all add: graph_titles_def block_events_def)

lemma cleans_blocks [simp]: "cleans (concat (map (block_events H B N w) ks)) = []"
  by (induction ks) (simp_all add: cleans_def block_events_def)

lemma durations_added_blocks [simp]:
  "durations_added (concat (map (block_events H B N w) ks)) =
     map (\<lambda>k. word_of_int (elapsed_at B w k)) ks"
  by (induction ks) (simp_all add: durations_added_def block_events_def)

lemma wrappers_constructed_blocks [simp]:
  "wrappers_constructed (concat (map (block_events H B N w) ks)) = map (\<lambda>k. objects w + k) ks"
  by (induction ks) (simp_all add: wrappers_constructed_def block_events_def)

lemma results_functor_call:
  "results (trace (functor_call H B N ty w)) =
     results (trace w) @
       [(ty, to_string N,
         sum_list (map (\<lambda>k. word_of_int (elapsed_at B w k)) [0..<REPEAT]) div of_nat REPEAT)]"
  by (simp add: functor_call_eq) (simp add: results_def)

lemma labels_functor_call:
  "map (\<lambda>(s, x, y). (s, x)) (results (trace (functor_call H B N ty w))) =
     map (\<lambda>(s, x, y). (s, x)) (results (trace w)) @ [(ty, to_string N)]"
  by (simp add: results_functor_call)

lemma graph_titles_functor_call [simp]:
  "graph_titles (trace (functor_call H B N ty w)) = graph_titles (trace w)"
  by (simp add: functor_call_eq) (simp add: graph_titles_def)

lemma cleans_functor_call:
  "cleans (trace (functor_call H B N ty w)) = cleans (trace w) @ [CreatePolicy B]"
  by (simp add: functor_call_eq) (simp add: cleans_def)

lemma wrappers_constructed_functor_call:
  "wrappers_constructed (trace (functor_call H B N ty w)) =
     wrappers_constructed (trace w) @ map (\<lambda>k. objects w + k) [0..<REPEAT]"
  by (simp add: functor_call_eq) (simp add: wrappers_constructed_def)

lemma durations_added_functor_call:
  "durations_added (trace (functor_call H B N ty w)) =
     durations_added (trace w) @ map (\<lambda>k. word_of_int (elapsed_at B w k)) [0..<REPEAT]"
  by (simp add: functor_call_eq) (simp add: durations_added_def)

lemma labels_bench:
  "map (\<lambda>(s, x, y). (s, x)) (results (trace (bench H B ty w))) =
     map (\<lambda>(s, x, y). (s, x)) (results (trace w)) @
       map (\<lambda>N. (ty, to_string N)) (sizes_list (Sizes B))"
  by (simp add: bench_def Let_def labels_functor_call sizes_list_def)

lemma graph_titles_bench [simp]:
  "graph_titles (trace (bench H B ty w)) = graph_titles (trace w)"
  by (simp add: bench_def Let_def)

lemma cleans_bench:
  "cleans (trace (bench H B ty w)) = cleans (trace w) @ replicate 10 (CreatePolicy B)"
  by (simp add: bench_def Let_def cleans_functor_call numeral_eq_Suc)

lemma graph_titles_foldl_bench [simp]:
  "graph_titles (trace (foldl (\<lambda>w (B, ty). bench H B ty w) w Bs)) = graph_titles (trace w)"
  by (induction Bs arbitrary: w) (simp_all add: split_def)

lemma graph_titles_benchmark_run:
  "graph_titles (trace (benchmark_run H f T w)) =
     graph_titles (trace w) @ [fst (graph_of f) @ '' - '' @ demangle H T]"
  by (simp add: benchmark_run_def new_graph_def Let_def emit_def) (simp add: graph_titles_def)

lemma graph_titles_bench_types:
  "graph_titles (trace (bench_types H f Ts w)) =
     graph_titles (trace w) @ map (\<lambda>T. fst (graph_of f) @ '' - '' @ demangle H T) Ts"
  by (induction Ts arbitrary: w) (simp_all add: graph_titles_benchmark_run)

lemma other_family_not_number_crunching:
  "f \<noteq> bench_number_crunching \<Longrightarrow>
   filter (prefix ''number_crunching'') (map (\<lambda>T. fst (graph_of f) @ '' - '' @ d T) Ts) = []"
  by (cases f) (simp_all add: filter_empty_conv)

lemma graph_titles_main:
  "filter (prefix ''number_crunching'') (graph_titles (trace (main H w))) =
     filter (prefix ''number_crunching'') (graph_titles (trace w)) @
       [''number_crunching - '' @ demangle H TrivialSmall,
        ''number_crunching - '' @ demangle H TrivialMedium]"
proof -
  have out: "graph_titles (trace (emit Output_called v)) = graph_titles (trace v)"
    for v :: "'a world"
    by (simp add: emit_def) (simp add: graph_titles_def)
  show ?thesis
    unfolding main_def out bench_all_def Let_def graph_titles_bench_types
    by (simp add: other_family_not_number_crunching)
qed


lemma sum_list_word_of_int:
  "sum_list (map (\<lambda>k. word_of_int (f k)) ks) = (word_of_int (sum_list (map f ks)) :: size_t)"
  by (induction ks) simp_all

lemma sum_list_bounds:
  "(\<And>k. k \<in> set ks \<Longrightarrow> 0 \<le> f k \<and> f k \<le> (b::int)) \<Longrightarrow>
   0 \<le> sum_list (map f ks) \<and> sum_list (map f ks) \<le> int (length ks) * b"
proof (induction ks)
  case Nil
  then show ?case by simp
next
  case (Cons a ks)
  then have "0 \<le> f a \<and> f a \<le> b" "0 \<le> sum_list (map f ks) \<and> sum_list (map f ks) \<le> int (length ks) * b"
    by simp_all
  then show ?case by (simp add: algebra_simps)
qed

lemma duration_cast_nonneg:
  "0 \<le> d \<Longrightarrow> d < 2 ^ 63 \<Longrightarrow> 0 \<le> duration_cast U d \<and> duration_cast U d \<le> 2 ^ 60"
  by (cases U; simp add: duration_cast_def; arith)

lemma word_div_of_int:
  assumes "0 \<le> S" "S < 2 ^ 64"
  shows "(word_of_int S :: size_t) div of_nat REPEAT = word_of_int (S div 7)"
proof -
  have u: "uint (word_of_int S :: size_t) = S"
    using assms by (simp add: uint_word_of_int take_bit_eq_mod)
  have "uint ((word_of_int S :: size_t) div of_nat REPEAT) = S div 7"
    by (simp add: uint_div u REPEAT_def)
  then have "word_of_int (uint ((word_of_int S :: size_t) div of_nat REPEAT)) = (word_of_int (S div 7) :: size_t)"
    by simp
  then show ?thesis by simp
qed

section \<open>The reported value\<close>

lemma upt_REPEAT: "[0..<REPEAT] = [0, 1, 2, 3, 4, 5, 6]"
  by (simp add: REPEAT_def upt_conv_Cons)

text \<open>
  With a clock that advances by one microsecond during the first repetition and not at all
  during the other six, the 7 durations are 1, 0, 0, 0, 0, 0, 0 and the value submitted is
  0: seven times the value is not the sum of the durations, so the value is not their
  exact arithmetic mean.
\<close>

theorem reported_value_not_exact_mean_counterexample:
  "durations_added (trace (functor_call example_headers example_bencher 100000 ''list_linear''
       (example_world (\<lambda>k. if k = 0 then 0 else 1000)))) = [1, 0, 0, 0, 0, 0, 0]
   \<and> map (\<lambda>(s, x, y). y) (results (trace (functor_call example_headers example_bencher 100000
       ''list_linear'' (example_world (\<lambda>k. if k = 0 then 0 else 1000))))) = [0]
   \<and> map (\<lambda>(s, x, y). 7 * unat y) (results (trace (functor_call example_headers example_bencher
       100000 ''list_linear'' (example_world (\<lambda>k. if k = 0 then 0 else 1000)))))
     \<noteq> [sum_list (map unat (durations_added (trace (functor_call example_headers example_bencher
       100000 ''list_linear'' (example_world (\<lambda>k. if k = 0 then 0 else 1000))))))]"
  by (simp add: durations_added_functor_call results_functor_call upt_REPEAT elapsed_at_def
      duration_cast_def example_world_def example_bencher_def Bencher_of_def)
    (simp add: durations_added_def results_def REPEAT_def)

text \<open>
  Claim C3 (as amended). \<open>REPEAT\<close> is 7. When the clock does not run backwards between the
  two readings of a repetition and their difference fits the clock's signed 64-bit
  representation, a call of \<open>functor<N>::operator()\<close> adds exactly 7 durations, each
  non-negative and each stored without wrap-around, and submits one data point whose value
  is the sum of these 7 durations divided by 7 with integer (truncating) division, that
  is, the arithmetic mean rounded down to a whole number of units.
\<close>

theorem functor_call_reports_truncated_mean:
  assumes "\<forall>k<REPEAT. clock w (reads w + 2 * k) \<le> clock w (reads w + 2 * k + 1)
             \<and> clock w (reads w + 2 * k + 1) - clock w (reads w + 2 * k) < 2 ^ 63"
  shows "durations_added (trace (functor_call H B N ty w)) =
           durations_added (trace w) @ map (\<lambda>k. word_of_int (elapsed_at B w k)) [0..<REPEAT]
       \<and> (\<forall>k<REPEAT. 0 \<le> elapsed_at B w k
             \<and> uint (word_of_int (elapsed_at B w k) :: size_t) = elapsed_at B w k)
       \<and> results (trace (functor_call H B N ty w)) =
           results (trace w) @
             [(ty, to_string N,
               word_of_int (sum_list (map (elapsed_at B w) [0..<REPEAT]) div int REPEAT))]
       \<and> 0 \<le> sum_list (map (elapsed_at B w) [0..<REPEAT])
       \<and> sum_list (map (elapsed_at B w) [0..<REPEAT]) div int REPEAT < 2 ^ 64
       \<and> length [0..<REPEAT] = 7"
proof -
  let ?S = "sum_list (map (elapsed_at B w) [0..<REPEAT])"
  have e: "0 \<le> elapsed_at B w k \<and> elapsed_at B w k \<le> 2 ^ 60" if "k < REPEAT" for k
    using assms that unfolding elapsed_at_def
    by (intro duration_cast_nonneg) simp_all
  have "0 \<le> ?S \<and> ?S \<le> int (length [0..<REPEAT]) * 2 ^ 60"
    by (rule sum_list_bounds) (use e in simp)
  then have S: "0 \<le> ?S" "?S < 2 ^ 64"
    by (simp_all add: REPEAT_def)
  have u: "uint (word_of_int (elapsed_at B w k) :: size_t) = elapsed_at B w k" if "k < REPEAT" for k
    using e [OF that] by (simp add: uint_word_of_int take_bit_eq_mod)
  have v: "sum_list (map (\<lambda>k. word_of_int (elapsed_at B w k)) [0..<REPEAT]) div of_nat REPEAT
        = (word_of_int (?S div int REPEAT) :: size_t)"
    unfolding sum_list_word_of_int using word_div_of_int [OF S] by (simp add: REPEAT_def)
  have q: "?S div int REPEAT < 2 ^ 64"
    using S by (simp add: REPEAT_def)
  have r: "length [0..<REPEAT] = 7"
    by (simp add: REPEAT_def)
  show ?thesis
    using e u S(1) q r by (simp add: durations_added_functor_call results_functor_call v)
qed

theorem functor_call_reports_truncated_mean_witness:
  "durations_added (trace (functor_call example_headers example_bencher 100000 ''list_linear''
       (example_world (\<lambda>k. if k < 14
          then [0, 1500, 2000, 5000, 5000, 5999, 7000, 9100, 10000, 10000,
                11000, 18000, 20000, 20001] ! k
          else 20001))))
     = [1, 3, 0, 2, 0, 7, 0]
   \<and> results (trace (functor_call example_headers example_bencher 100000 ''list_linear''
       (example_world (\<lambda>k. if k < 14
          then [0, 1500, 2000, 5000, 5000, 5999, 7000, 9100, 10000, 10000,
                11000, 18000, 20000, 20001] ! k
          else 20001))))
     = [(''list_linear'', to_string 100000, 1)]"
proof -
  let ?c = "\<lambda>k. if k < 14
          then [0, 1500, 2000, 5000, 5000, 5999, 7000, 9100, 10000, 10000,
                11000, 18000, 20000, 20001 :: int] ! k
          else 20001"
  let ?w = "example_world ?c"
  have hyp: "\<forall>k<REPEAT. clock ?w (reads ?w + 2 * k) \<le> clock ?w (reads ?w + 2 * k + 1)
             \<and> clock ?w (reads ?w + 2 * k + 1) - clock ?w (reads ?w + 2 * k) < 2 ^ 63"
    by (simp add: REPEAT_def example_world_def All_less_Suc numeral_eq_Suc)
  have tr: "trace ?w = []"
    by (simp add: example_world_def)
  have el: "map (elapsed_at example_bencher ?w) [0..<REPEAT] = [1, 3, 0, 2, 0, 7, 0]"
    by (simp add: upt_REPEAT elapsed_at_def duration_cast_def example_world_def
        example_bencher_def Bencher_of_def)
  have el': "map (\<lambda>k. word_of_int (elapsed_at example_bencher ?w k) :: size_t) [0..<REPEAT]
      = map word_of_int (map (elapsed_at example_bencher ?w) [0..<REPEAT])"
    by simp
  show ?thesis
    using functor_call_reports_truncated_mean
      [OF hyp, of example_headers example_bencher 100000 "''list_linear''"]
    unfolding el' el tr
    by (simp add: durations_added_def results_def REPEAT_def)
qed

section \<open>Arena capacity\<close>

text \<open>
  Claim C1. The capacity the Bencher hands to the allocator wrapper is
  \<open>sizeof(NodeSize) * (N + 1000)\<close>, where \<open>NodeSize\<close> is an object of type \<open>size_t\<close>: it is
  8 times the allocation bound whatever the value type, and the alignment is that of
  \<open>size_t\<close>. For \<open>TrivialMedium\<close> (32 bytes, node size 48) and \<open>N = 100000\<close> the wrapper
  receives 808000 bytes, where the assumed node size times the bound is 4848000.
\<close>

theorem buffer_size_ignores_node_size:
  "BufferSize T N = 8 * (N + 1000)
   \<and> Align T = 8
   \<and> fst (WrapperType B N w) =
       (objects w, wrapper_allocator (AllocatorWrapper B) (objects w) (8 * (N + 1000)) 8)
   \<and> NodeSize TrivialMedium = 48
   \<and> snd (fst (WrapperType example_bencher 100000 w)) = short_alloc (objects w) 808000 8
   \<and> NodeSize TrivialMedium * (100000 + 1000) = 4848000"
  by (simp add: BufferSize_def Align_def NodeSize_def sizeof_object_def alignof_object_def
      sizeof_size_t_def alignof_size_t_def sizeof_uintptr_t_def WrapperType_def Let_def
      wrapper_allocator_def example_bencher_def Bencher_of_def padded_size_def)

section \<open>Cleanup and the order of events within a repetition\<close>

lemma example_block:
  "block_events example_headers example_bencher 100000 (example_world (\<lambda>k. 5000 * int k)) k =
     [Wrapper_constructed k linear_allocator_wrapper 808000 8,
      Container_made k Empty 100000 (short_alloc k 808000 8),
      Clock_read (10000 * int k),
      Chain_run k 100000,
      Clock_read (10000 * int k + 5000),
      Duration_added 5,
      Container_destroyed k,
      Wrapper_destroyed k]"
  by (simp add: block_events_def example_world_def example_bencher_def Bencher_of_def
      example_headers_def BufferSize_def Align_def sizeof_object_def alignof_object_def
      sizeof_size_t_def alignof_size_t_def wrapper_allocator_def elapsed_at_def
      duration_cast_def)

text \<open>
  One call of \<open>functor<100000>::operator()\<close> constructs 7 wrapper objects, one per
  repetition, and calls the cleanup step a single time.
\<close>

theorem clean_once_per_size_counterexample:
  "cleans (trace (functor_call example_headers example_bencher 100000 ''list_linear''
       (example_world (\<lambda>k. 5000 * int k)))) = [Empty]
   \<and> length (wrappers_constructed (trace (functor_call example_headers example_bencher 100000
       ''list_linear'' (example_world (\<lambda>k. 5000 * int k))))) = 7
   \<and> length (cleans (trace (functor_call example_headers example_bencher 100000 ''list_linear''
       (example_world (\<lambda>k. 5000 * int k))))) \<noteq> REPEAT"
  by (simp add: cleans_functor_call wrappers_constructed_functor_call example_world_def
      example_bencher_def Bencher_of_def)
    (simp add: cleans_def wrappers_constructed_def REPEAT_def)

text \<open>
  Claim C2 (as amended). For every combination and size, \<open>functor<N>::operator()\<close> invokes
  the creation policy's cleanup step exactly once, as its last action, after the 7
  repetitions (each with its own wrapper object) and after the data point has been
  submitted; \<open>bench\<close> therefore invokes it 10 times, once per size.
\<close>

theorem clean_once_per_size:
  "cleans (trace (functor_call H B N ty w)) = cleans (trace w) @ [CreatePolicy B]
   \<and> wrappers_constructed (trace (functor_call H B N ty w)) =
       wrappers_constructed (trace w) @ map (\<lambda>k. objects w + k) [0..<REPEAT]
   \<and> length (map (\<lambda>k. objects w + k) [0..<REPEAT]) = 7
   \<and> last (trace (functor_call H B N ty w)) = Clean_called (CreatePolicy B)
   \<and> last (butlast (trace (functor_call H B N ty w))) =
       New_result ty (to_string N)
         (sum_list (map (\<lambda>k. word_of_int (elapsed_at B w k)) [0..<REPEAT]) div of_nat REPEAT)
   \<and> cleans (trace (bench H B ty w)) = cleans (trace w) @ replicate 10 (CreatePolicy B)"
proof -
  have "last (trace (functor_call H B N ty w)) = Clean_called (CreatePolicy B)"
    by (simp add: functor_call_eq)
  moreover have "last (butlast (trace (functor_call H B N ty w))) =
       New_result ty (to_string N)
         (sum_list (map (\<lambda>k. word_of_int (elapsed_at B w k)) [0..<REPEAT]) div of_nat REPEAT)"
    by (simp add: functor_call_eq butlast_append)
  ultimately show ?thesis
    by (simp add: cleans_functor_call wrappers_constructed_functor_call cleans_bench REPEAT_def)
qed

text \<open>
  The first eight events of the same call: the duration of the first repetition is added
  before the container and the wrapper of that repetition are destroyed, and the wrapper
  has not been destroyed at any earlier point.
\<close>

theorem arena_released_after_accumulation_counterexample:
  "take 8 (trace (functor_call example_headers example_bencher 100000 ''list_linear''
       (example_world (\<lambda>k. 5000 * int k)))) =
     [Wrapper_constructed 0 linear_allocator_wrapper 808000 8,
      Container_made 0 Empty 100000 (short_alloc 0 808000 8),
      Clock_read 0,
      Chain_run 0 100000,
      Clock_read 5000,
      Duration_added 5,
      Container_destroyed 0,
      Wrapper_destroyed 0]
   \<and> Wrapper_destroyed 0 \<notin> set (takeWhile (\<lambda>e. e \<noteq> Duration_added 5)
       (trace (functor_call example_headers example_bencher 100000 ''list_linear''
          (example_world (\<lambda>k. 5000 * int k)))))"
  by (simp add: functor_call_eq example_block upt_REPEAT)
    (simp add: example_world_def)

text \<open>
  Claim C4 (as amended). A call of \<open>functor<N>::operator()\<close> appends, for each of the 7
  repetitions in turn, exactly these events: a new wrapper object (with its arena) is
  constructed, the container is made with that wrapper's allocator, the clock is read,
  the policy chain runs on that container, the clock is read again, the elapsed duration
  is added to the accumulated duration, and then, at the end of the block, the container
  and after it the wrapper with its arena are destroyed. The wrapper of the \<open>k\<close>-th
  repetition is the \<open>k\<close>-th new object, so no two repetitions share a wrapper, an arena or
  an allocator view, and the call leaves the object counter 7 higher, so later calls use
  new objects again. The data point and the cleanup call follow the last repetition.
\<close>

theorem functor_call_trace:
  "trace (functor_call H B N ty w) =
     trace w @
     concat (map (\<lambda>k.
        [Wrapper_constructed (objects w + k) (AllocatorWrapper B)
           (BufferSize (ValueType B) N) (Align (ValueType B)),
         Container_made (objects w + k) (CreatePolicy B) N
           (wrapper_allocator (AllocatorWrapper B) (objects w + k)
              (BufferSize (ValueType B) N) (Align (ValueType B))),
         Clock_read (clock w (reads w + 2 * k)),
         Chain_run (objects w + k)
           (run (map (\<lambda>p. policy_run H p (Container B) (ValueType B)) (TestPolicy B))
              (policy_make H (CreatePolicy B) (Container B) (ValueType B) N
                 (wrapper_allocator (AllocatorWrapper B) (objects w + k)
                    (BufferSize (ValueType B) N) (Align (ValueType B)))) N),
         Clock_read (clock w (reads w + 2 * k + 1)),
         Duration_added (word_of_int (duration_cast (DurationUnit B)
           (clock w (reads w + 2 * k + 1) - clock w (reads w + 2 * k)))),
         Container_destroyed (objects w + k),
         Wrapper_destroyed (objects w + k)]) [0..<REPEAT]) @
     [New_result ty (to_string N)
        (sum_list (map (\<lambda>k. word_of_int (duration_cast (DurationUnit B)
           (clock w (reads w + 2 * k + 1) - clock w (reads w + 2 * k)))) [0..<REPEAT])
         div of_nat REPEAT),
      Clean_called (CreatePolicy B)]
   \<and> distinct (map (\<lambda>k. objects w + k) [0..<REPEAT])
   \<and> length [0..<REPEAT] = 7
   \<and> objects (functor_call H B N ty w) = objects w + 7"
proof -
  have "block_events H B N w = (\<lambda>k.
        [Wrapper_constructed (objects w + k) (AllocatorWrapper B)
           (BufferSize (ValueType B) N) (Align (ValueType B)),
         Container_made (objects w + k) (CreatePolicy B) N
           (wrapper_allocator (AllocatorWrapper B) (objects w + k)
              (BufferSize (ValueType B) N) (Align (ValueType B))),
         Clock_read (clock w (reads w + 2 * k)),
         Chain_run (objects w + k)
           (run (map (\<lambda>p. policy_run H p (Container B) (ValueType B)) (TestPolicy B))
              (policy_make H (CreatePolicy B) (Container B) (ValueType B) N
                 (wrapper_allocator (AllocatorWrapper B) (objects w + k)
                    (BufferSize (ValueType B) N) (Align (ValueType B)))) N),
         Clock_read (clock w (reads w + 2 * k + 1)),
         Duration_added (word_of_int (duration_cast (DurationUnit B)
           (clock w (reads w + 2 * k + 1) - clock w (reads w + 2 * k)))),
         Container_destroyed (objects w + k),
         Wrapper_destroyed (objects w + k)])"
    by (rule ext) (simp add: block_events_def elapsed_at_def)
  moreover have "distinct (map (\<lambda>k. objects w + k) [0..<REPEAT])"
    by (simp add: distinct_map inj_on_def)
  ultimately show ?thesis
    using functor_call_eq [of H B N ty w]
    by (simp add: elapsed_at_def REPEAT_def)
qed

section \<open>Data points per series and the size lists\<close>

lemma length_labels:
  "length (results tr) = length (map (\<lambda>(s, x, y). (s, x)) (results tr))"
  by simp

text \<open>
  Claim C6. For every Bencher instantiation, \<open>bench\<close> submits exactly 10 data points to the
  report sink, labelled with the series label and the decimal rendering of the 10 sizes
  in list order; every value is an unsigned integer, hence non-negative. Every family's
  size list has 10 elements and is strictly increasing, and every Bencher a family
  instantiates uses the family's size list.
\<close>

theorem bench_submits_ten_points:
  "map (\<lambda>(s, x, y). (s, x)) (results (trace (bench H B ty w))) =
     map (\<lambda>(s, x, y). (s, x)) (results (trace w)) @
       map (\<lambda>N. (ty, to_string N)) (sizes_list (Sizes B))
   \<and> length (results (trace (bench H B ty w))) = length (results (trace w)) + 10
   \<and> list_all (\<lambda>(s, x, y). 0 \<le> uint y) (results (trace (bench H B ty w)))
   \<and> length (sizes_list (Sizes_of f)) = 10
   \<and> sorted_wrt (<) (sizes_list (Sizes_of f))
   \<and> list_all (\<lambda>(B, ty). Sizes B = Sizes_of f) (benchers f T)"
proof -
  have len: "length (results (trace (bench H B ty w))) = length (results (trace w)) + 10"
    unfolding length_labels [of "trace (bench H B ty w)"] labels_bench
    by (simp add: sizes_list_def)
  have nonneg: "list_all (\<lambda>(s, x, y). 0 \<le> uint y) (results (trace (bench H B ty w)))"
    by (simp add: list_all_iff split_def)
  have sizes: "length (sizes_list (Sizes_of f)) = 10 \<and> sorted_wrt (<) (sizes_list (Sizes_of f))"
    by (cases f) (simp_all add: sizes_list_def SizesType_init_def)
  have uses: "list_all (\<lambda>(B, ty). Sizes B = Sizes_of f) (benchers f T)"
    by (cases f) (simp_all add: Bencher_of_def)
  from len nonneg sizes uses show ?thesis
    by (simp add: labels_bench)
qed

section \<open>Which types the number-crunching family runs for\<close>

lemma catalog_static_asserts:
  "is_trivial_of_size (traits TrivialSmall) 8"
  "is_trivial_of_size (traits TrivialMedium) 32"
  "is_trivial_of_size (traits TrivialLarge) 128"
  "is_trivial_of_size (traits TrivialHuge) 1024"
  "is_trivial_of_size (traits TrivialMonster) (4 * 1024)"
  "is_non_trivial_nothrow_movable (traits NonTrivialStringMovableNoExcept)"
  "is_non_trivial_non_nothrow_movable (traits NonTrivialStringMovable)"
  "is_non_trivial_of_size (traits NonTrivialArrayMedium) 32"
  by (simp_all add: is_trivial_of_size_def is_non_trivial_nothrow_movable_def
      is_non_trivial_non_nothrow_movable_def is_non_trivial_of_size_def padded_size_def)

lemma sink_calls_append [simp]: "sink_calls (a @ b) = sink_calls a @ sink_calls b"
  by (simp add: sink_calls_def)

lemma sink_calls_blocks [simp]: "sink_calls (concat (map (block_events H B N w) ks)) = []"
  by (induction ks) (simp_all add: sink_calls_def block_events_def)

lemma sink_calls_functor_call:
  "sink_calls (trace (functor_call H B N ty w)) =
     sink_calls (trace w) @ [Point ty (to_string N)]"
  by (simp add: functor_call_eq) (simp add: sink_calls_def)

lemma sink_calls_bench:
  "sink_calls (trace (bench H B ty w)) =
     sink_calls (trace w) @ map (\<lambda>N. Point ty (to_string N)) (sizes_list (Sizes B))"
  by (simp add: bench_def Let_def sink_calls_functor_call sizes_list_def)

lemma sink_calls_foldl_bench:
  "sink_calls (trace (foldl (\<lambda>w (B, ty). bench H B ty w) w Bs)) =
     sink_calls (trace w) @
       concat (map (\<lambda>(B, ty). map (\<lambda>N. Point ty (to_string N)) (sizes_list (Sizes B))) Bs)"
  by (induction Bs arbitrary: w) (simp_all add: split_def sink_calls_bench)

lemma sink_calls_benchmark_run:
  "sink_calls (trace (benchmark_run H f T w)) =
     sink_calls (trace w) @
       Graph (fst (graph_of f) @ '' - '' @ demangle H T) #
       concat (map (\<lambda>(B, ty). map (\<lambda>N. Point ty (to_string N)) (sizes_list (Sizes B)))
         (benchers f T))"
  by (simp add: benchmark_run_def new_graph_def Let_def sink_calls_foldl_bench emit_def)
    (simp add: sink_calls_def)

lemma sink_calls_number_crunching:
  "sink_calls (trace (benchmark_run H bench_number_crunching T w)) =
     sink_calls (trace w) @
       Graph (''number_crunching - '' @ demangle H T) #
       concat (map (\<lambda>ty. map (\<lambda>N. Point ty (to_string N))
                            (sizes_list (Sizes_of bench_number_crunching)))
         [''vector'', ''list'', ''deque'', ''list_linear''])"
  unfolding sink_calls_benchmark_run
  by (simp add: Bencher_of_def)

lemma drop_suffix: "length b = n \<Longrightarrow> drop (length (a @ b) - n) (a @ b) = b"
  by simp

lemma sink_calls_main_suffix:
  "drop (length (sink_calls (trace (main H w))) - 82) (sink_calls (trace (main H w))) =
     Graph (''number_crunching - '' @ demangle H TrivialSmall) #
     concat (map (\<lambda>ty. map (\<lambda>N. Point ty (to_string N))
                          (sizes_list (Sizes_of bench_number_crunching)))
       [''vector'', ''list'', ''deque'', ''list_linear'']) @
     Graph (''number_crunching - '' @ demangle H TrivialMedium) #
     concat (map (\<lambda>ty. map (\<lambda>N. Point ty (to_string N))
                          (sizes_list (Sizes_of bench_number_crunching)))
       [''vector'', ''list'', ''deque'', ''list_linear''])"
proof -
  let ?part = "\<lambda>T. Graph (''number_crunching - '' @ demangle H T) #
     concat (map (\<lambda>ty. map (\<lambda>N. Point ty (to_string N))
                          (sizes_list (Sizes_of bench_number_crunching)))
       [''vector'', ''list'', ''deque'', ''list_linear''])"
  let ?w9 = "bench_types H bench_destruction cataloged_types
      (bench_types H bench_sort cataloged_types
      (bench_types H bench_random_remove cataloged_types
      (bench_types H bench_random_insert cataloged_types
      (bench_types H bench_linear_search cataloged_types
      (bench_types H bench_emplace_front cataloged_types
      (bench_types H bench_fill_front cataloged_types
      (bench_types H bench_emplace_back cataloged_types
      (bench_types H bench_fill_back cataloged_types w))))))))"
  have out: "sink_calls (trace (emit Output_called v)) = sink_calls (trace v)"
    for v :: "'a world"
    by (simp add: emit_def) (simp add: sink_calls_def)
  let ?suffix = "Graph (''number_crunching - '' @ demangle H TrivialSmall) #
     concat (map (\<lambda>ty. map (\<lambda>N. Point ty (to_string N))
                          (sizes_list (Sizes_of bench_number_crunching)))
       [''vector'', ''list'', ''deque'', ''list_linear'']) @
     Graph (''number_crunching - '' @ demangle H TrivialMedium) #
     concat (map (\<lambda>ty. map (\<lambda>N. Point ty (to_string N))
                          (sizes_list (Sizes_of bench_number_crunching)))
       [''vector'', ''list'', ''deque'', ''list_linear''])"
  have "sink_calls (trace (main H w)) =
      sink_calls (trace (benchmark_run H bench_number_crunching TrivialMedium
        (benchmark_run H bench_number_crunching TrivialSmall ?w9)))"
    unfolding main_def out bench_all_def Let_def bench_types.simps ..
  also have "\<dots> = (sink_calls (trace ?w9) @ ?part TrivialSmall) @ ?part TrivialMedium"
    unfolding sink_calls_number_crunching ..
  also have "\<dots> = sink_calls (trace ?w9) @ ?suffix"
    by (simp only: append_assoc append_Cons)
  finally have eq: "sink_calls (trace (main H w)) = sink_calls (trace ?w9) @ ?suffix" .
  have len: "length ?suffix = 82"
    by (simp add: sizes_list_def)
  show ?thesis
    unfolding eq by (rule drop_suffix [OF len])
qed

lemma digit_char_0: "digit_char 0 = CHR ''0''"
  by code_simp

lemma digit_char_1: "digit_char (Suc 0) = CHR ''1''"
  by code_simp

lemma decimal_10000: "decimal 10000 = ''10000''"
  by (simp add: decimal.simps [of 10000] decimal.simps [of 1000] decimal.simps [of 100]
      decimal.simps [of 10] decimal.simps [of "Suc 0"] digit_char_0 digit_char_1)

text \<open>
  Claim C7. In the full run (\<open>main\<close>), the graphs registered for the number-crunching
  family are exactly two, for \<open>TrivialSmall\<close> and \<open>TrivialMedium\<close>, in this order; no
  other cataloged type gets one. The family is executed for these two types: the last 82
  graph and data-point calls of the run are, for \<open>TrivialSmall\<close> and then for
  \<open>TrivialMedium\<close>, the family's graph followed by the 10 data points of each of its four
  series (\<open>vector\<close>, \<open>list\<close>, \<open>deque\<close>, \<open>list_linear\<close>), one per size of the family's
  size list, in order. These are the two smallest trivial types of the catalog: every other
  trivial type of the catalog is larger than both.
\<close>

theorem number_crunching_only_two_smallest:
  "filter (prefix ''number_crunching'') (graph_titles (trace (main H w))) =
     filter (prefix ''number_crunching'') (graph_titles (trace w)) @
       [''number_crunching - '' @ demangle H TrivialSmall,
        ''number_crunching - '' @ demangle H TrivialMedium]
   \<and> TrivialSmall \<in> set cataloged_types \<and> TrivialMedium \<in> set cataloged_types
   \<and> sizeof (traits TrivialSmall) < sizeof (traits TrivialMedium)
   \<and> (\<forall>T \<in> set cataloged_types.
        is_trivial (traits T) \<and> T \<noteq> TrivialSmall \<and> T \<noteq> TrivialMedium \<longrightarrow>
        sizeof (traits TrivialMedium) < sizeof (traits T))
   \<and> drop (length (sink_calls (trace (main H w))) - 82) (sink_calls (trace (main H w))) =
       Graph (''number_crunching - '' @ demangle H TrivialSmall) #
       concat (map (\<lambda>ty. map (\<lambda>N. Point ty (to_string N))
                            (sizes_list (Sizes_of bench_number_crunching)))
         [''vector'', ''list'', ''deque'', ''list_linear'']) @
       Graph (''number_crunching - '' @ demangle H TrivialMedium) #
       concat (map (\<lambda>ty. map (\<lambda>N. Point ty (to_string N))
                            (sizes_list (Sizes_of bench_number_crunching)))
         [''vector'', ''list'', ''deque'', ''list_linear''])"
proof -
  have "TrivialSmall \<in> set cataloged_types \<and> TrivialMedium \<in> set cataloged_types
   \<and> sizeof (traits TrivialSmall) < sizeof (traits TrivialMedium)
   \<and> (\<forall>T \<in> set cataloged_types.
        is_trivial (traits T) \<and> T \<noteq> TrivialSmall \<and> T \<noteq> TrivialMedium \<longrightarrow>
        sizeof (traits TrivialMedium) < sizeof (traits T))"
    by (simp add: cataloged_types_def padded_size_def)
  with graph_titles_main [of H w] sink_calls_main_suffix [of H w] show ?thesis
    by (intro conjI) (erule conjE | assumption)+
qed

lemma decimal_8: "decimal 8 = ''8''"
  by code_simp

lemma decimal_32: "decimal 32 = ''32''"
  by code_simp

theorem number_crunching_only_two_smallest_witness:
  "filter (prefix ''number_crunching'')
     (graph_titles (trace (main example_headers (example_world (\<lambda>k. 5000 * int k))))) =
       [''number_crunching - Trivial<8>'', ''number_crunching - Trivial<32>'']
   \<and> TrivialLarge \<in> set cataloged_types
   \<and> is_trivial (traits TrivialLarge)
   \<and> sizeof (traits TrivialMedium) < sizeof (traits TrivialLarge)
   \<and> take 3 (drop (length (sink_calls (trace (main example_headers
         (example_world (\<lambda>k. 5000 * int k))))) - 82)
       (sink_calls (trace (main example_headers (example_world (\<lambda>k. 5000 * int k)))))) =
       [Graph ''number_crunching - Trivial<8>'', Point ''vector'' ''10000'',
        Point ''vector'' (to_string 20000)]"
proof -
  have d: "decimal 8 = ''8''" "decimal 32 = ''32''"
    by (rule decimal_8, rule decimal_32)
  have m: "TrivialLarge \<in> set cataloged_types"
    by (simp add: cataloged_types_def)
  have t: "is_trivial (traits TrivialLarge) \<and> TrivialLarge \<noteq> TrivialSmall
      \<and> TrivialLarge \<noteq> TrivialMedium"
    by simp
  note inst = number_crunching_only_two_smallest
    [of example_headers "example_world (\<lambda>k. 5000 * int k)"]
  have names: "demangle example_headers TrivialSmall = ''Trivial<8>''"
    "demangle example_headers TrivialMedium = ''Trivial<32>''"
    by (simp_all add: example_headers_def d)
  have start: "graph_titles (trace (example_world (\<lambda>k. 5000 * int k))) = []"
    by (simp add: example_world_def graph_titles_def)
  from inst have "filter (prefix ''number_crunching'')
      (graph_titles (trace (main example_headers (example_world (\<lambda>k. 5000 * int k))))) =
        filter (prefix ''number_crunching'')
          (graph_titles (trace (example_world (\<lambda>k. 5000 * int k)))) @
        [''number_crunching - '' @ demangle example_headers TrivialSmall,
         ''number_crunching - '' @ demangle example_headers TrivialMedium]"
    by (rule conjunct1)
  then have g: "filter (prefix ''number_crunching'')
      (graph_titles (trace (main example_headers (example_world (\<lambda>k. 5000 * int k))))) =
        [''number_crunching - Trivial<8>'', ''number_crunching - Trivial<32>'']"
    unfolding names start by simp
  from inst have ball: "\<forall>T \<in> set cataloged_types.
        is_trivial (traits T) \<and> T \<noteq> TrivialSmall \<and> T \<noteq> TrivialMedium \<longrightarrow>
        sizeof (traits TrivialMedium) < sizeof (traits T)"
    by (rule conjunct1 [OF conjunct2 [OF conjunct2 [OF conjunct2 [OF conjunct2]]]])
  from bspec [OF ball m] t have s: "sizeof (traits TrivialMedium) < sizeof (traits TrivialLarge)"
    by (rule mp)
  have ten: "to_string 10000 = ''10000''"
    by (simp add: to_string_def decimal_10000)
  from inst have "drop (length (sink_calls (trace (main example_headers
         (example_world (\<lambda>k. 5000 * int k))))) - 82)
       (sink_calls (trace (main example_headers (example_world (\<lambda>k. 5000 * int k))))) =
       Graph (''number_crunching - '' @ demangle example_headers TrivialSmall) #
       concat (map (\<lambda>ty. map (\<lambda>N. Point ty (to_string N))
                            (sizes_list (Sizes_of bench_number_crunching)))
         [''vector'', ''list'', ''deque'', ''list_linear'']) @
       Graph (''number_crunching - '' @ demangle example_headers TrivialMedium) #
       concat (map (\<lambda>ty. map (\<lambda>N. Point ty (to_string N))
                            (sizes_list (Sizes_of bench_number_crunching)))
         [''vector'', ''list'', ''deque'', ''list_linear''])"
    by (rule conjunct2 [OF conjunct2 [OF conjunct2 [OF conjunct2 [OF conjunct2]]]])
  then have sfx: "take 3 (drop (length (sink_calls (trace (main example_headers
         (example_world (\<lambda>k. 5000 * int k))))) - 82)
       (sink_calls (trace (main example_headers (example_world (\<lambda>k. 5000 * int k)))))) =
       [Graph ''number_crunching - Trivial<8>'', Point ''vector'' ''10000'',
        Point ''vector'' (to_string 20000)]"
    unfolding names by (simp add: sizes_list_def SizesType_init_def ten)
  show ?thesis
    by (intro conjI g m conjunct1 [OF t] s sfx)
qed


section \<open>The move classification predicate\<close>

text \<open>
  Claim C8. For every type, \<open>is_non_trivial_non_nothrow_movable\<close> holds if and only if the
  type is not trivial, it is both move constructible and move assignable, and neither of
  these two move operations is guaranteed not to throw. The cataloged type asserted to
  satisfy it does, and no type satisfies it together with
  \<open>is_non_trivial_nothrow_movable\<close>.
\<close>

theorem is_non_trivial_non_nothrow_movable_iff:
  "(is_non_trivial_non_nothrow_movable T \<longleftrightarrow>
      \<not> is_trivial T
      \<and> (is_move_constructible T \<and> is_move_assignable T)
      \<and> (\<not> is_nothrow_move_constructible T \<and> \<not> is_nothrow_move_assignable T))
   \<and> is_non_trivial_non_nothrow_movable (traits NonTrivialStringMovable)
   \<and> \<not> (is_non_trivial_non_nothrow_movable T \<and> is_non_trivial_nothrow_movable T)"
  by (auto simp add: is_non_trivial_non_nothrow_movable_def is_non_trivial_nothrow_movable_def)

end
